theory Spec2Isabelle
  imports Complex_Main
begin

section \<open>Strings and numbers of the Python source\<close>

text \<open>
  A Python \<open>str\<close> is modelled by the byte list of its UTF-8 encoding, so the Chinese
  literals of the source are written as byte lists. Substring tests and concatenation
  agree with Python on that encoding. \<open>str.lower\<close> and \<open>str.upper\<close> are modelled on
  the ASCII letters and leave every other byte alone; on ASCII strings they are
  Python's. The only character outside ASCII whose lower case is ASCII is the Kelvin
  sign (lower case \<open>k\<close>), so the comparisons with \<open>tcp\<close> and \<open>udp\<close> decide as in
  Python on every string. The lower-cased protocol inside the error text of an
  unsupported protocol, and the upper-cased method of a configuration, differ from
  Python on strings with letters outside ASCII (Python upper-cases U+017F to \<open>S\<close> and
  U+FB05, U+FB06 to \<open>ST\<close>).

  Python floats (seconds of \<open>time.time()\<close>) are idealised as reals: \<open>py_round2\<close>
  rounds the real product where Python rounds the double product, so the rounded
  milliseconds can differ from Python's in the last digit. The test for \<open>None\<close> and
  zero around it is exact.
\<close>

definition lower_char :: "char \<Rightarrow> char" where
  "lower_char c =
     (let n = (of_char c :: nat) in if 65 \<le> n \<and> n \<le> 90 then char_of (n + 32) else c)"

definition upper_char :: "char \<Rightarrow> char" where
  "upper_char c =
     (let n = (of_char c :: nat) in if 97 \<le> n \<and> n \<le> 122 then char_of (n - 32) else c)"

definition lower :: "string \<Rightarrow> string" where
  "lower s = map lower_char s"

definition upper :: "string \<Rightarrow> string" where
  "upper s = map upper_char s"

definition digit_char :: "nat \<Rightarrow> char" where
  "digit_char d = char_of (48 + d)"

function str_nat :: "nat \<Rightarrow> string" where
  "str_nat n = (if n < 10 then [digit_char n] else str_nat (n div 10) @ [digit_char (n mod 10)])"
  by pat_completeness auto
termination
  by (relation "measure id") auto

declare str_nat.simps [simp del]

definition str_int :: "int \<Rightarrow> string" where
  \<comment> \<open>\<open>str(i)\<close> of a Python int, as the f-strings of the source apply it\<close>
  "str_int i = (if i < 0 then CHR ''-'' # str_nat (nat (- i)) else str_nat (nat i))"

definition py_round2 :: "real \<Rightarrow> real" where
  \<comment> \<open>\<open>round(x, 2)\<close>: two decimals, ties to the even neighbour\<close>
  "py_round2 x =
     (let n = \<lfloor>x * 100\<rfloor>; r = x * 100 - of_int n
      in if r < 1 / 2 then of_int n / 100
         else if 1 / 2 < r then of_int (n + 1) / 100
         else if even n then of_int n / 100 else of_int (n + 1) / 100)"

section \<open>The probe engine: \<open>checker/port_checker.py\<close>\<close>

subsection \<open>What the operating system does during one probe\<close>

text \<open>
  \<open>socket.timeout\<close> is a subclass of \<open>socket.error\<close> (\<open>OSError\<close>), and so are the
  address resolution errors; every other exception class is \<open>Other_exception\<close>.
\<close>

datatype exn = Socket_timeout | Socket_error string | Other_exception string

fun is_socket_error :: "exn \<Rightarrow> bool" where
  "is_socket_error Socket_timeout = True"
| "is_socket_error (Socket_error m) = True"
| "is_socket_error (Other_exception m) = False"

text \<open>
  The socket calls of one probe and the clock readings around them. \<open>None\<close> in an
  \<open>exn option\<close> means the call returned normally.
\<close>

record probe_env =
  sock_open :: "exn option"      \<comment> \<open>\<open>socket.socket(...)\<close> and \<open>settimeout\<close>\<close>
  connect_ex :: "exn + int"      \<comment> \<open>\<open>s.connect_ex((host, port))\<close>: raises, or returns an errno\<close>
  sendto :: "exn option"         \<comment> \<open>\<open>s.sendto(b'', (host, port))\<close>\<close>
  recvfrom :: "exn option"       \<comment> \<open>\<open>s.recvfrom(1024)\<close>\<close>
  elapsed :: real                \<comment> \<open>\<open>time.time() - start_time\<close>\<close>
  clock :: real                  \<comment> \<open>\<open>time.time()\<close> when the outcome is built\<close>

text \<open>
  The handler \<open>except socket.error\<close> of both probes: a socket error becomes
  \<open>(False, None)\<close>, any other exception leaves the function.
\<close>

definition on_socket_error :: "exn \<Rightarrow> exn + bool \<times> real option" where
  "on_socket_error e = (if is_socket_error e then Inr (False, None) else Inl e)"

definition check_tcp_port :: "probe_env \<Rightarrow> exn + bool \<times> real option" where
  "check_tcp_port env =
     (case sock_open env of
        Some e \<Rightarrow> on_socket_error e
      | None \<Rightarrow>
          (case connect_ex env of
             Inl e \<Rightarrow> on_socket_error e
           | Inr result \<Rightarrow> Inr (result = 0, Some (elapsed env))))"

definition check_udp_port :: "probe_env \<Rightarrow> exn + bool \<times> real option" where
  "check_udp_port env =
     (case sock_open env of
        Some e \<Rightarrow> on_socket_error e
      | None \<Rightarrow>
          (case sendto env of
             Some e \<Rightarrow> on_socket_error e
           | None \<Rightarrow>
               (case recvfrom env of
                  None \<Rightarrow> Inr (True, Some (elapsed env))
                | Some Socket_timeout \<Rightarrow> Inr (True, Some (elapsed env))
                | Some e \<Rightarrow> on_socket_error e)))"

subsection \<open>The liveness tracker\<close>

record server =
  name :: string
  host :: string
  port :: int
  protocol :: string

text \<open>
  The dictionary returned by \<open>check_server\<close>. The keys \<open>checked_at\<close> and \<open>error\<close> are
  not in every result: \<open>None\<close> there means the key is absent. \<open>response_time\<close> is
  always a key, and \<open>None\<close> is Python's \<open>None\<close>.
\<close>

record outcome =
  server :: server
  is_alive :: bool
  response_time :: "real option"
  status_changed :: bool
  checked_at :: "real option"
  error :: "string option"

record checker =
  timeout :: int
  previous_states :: "string \<rightharpoonup> bool"

definition unsupported_protocol :: string where
  "unsupported_protocol =
     [CHR 0xE4, CHR 0xB8, CHR 0x8D, CHR 0xE6, CHR 0x94, CHR 0xAF, CHR 0xE6, CHR 0x8C, CHR 0x81,
      CHR 0xE7, CHR 0x9A, CHR 0x84, CHR 0xE5, CHR 0x8D, CHR 0x8F, CHR 0xE8, CHR 0xAE, CHR 0xAE,
      CHR '':'', CHR '' '']"

definition server_key :: "string \<Rightarrow> int \<Rightarrow> string \<Rightarrow> string" where
  "server_key h p proto = h @ '':'' @ str_int p @ '':'' @ proto"

definition ms_of :: "real option \<Rightarrow> real option" where
  \<comment> \<open>\<open>round(response_time * 1000, 2) if response_time else None\<close>: 0.0 is falsy\<close>
  "ms_of rt = (case rt of None \<Rightarrow> None
                | Some t \<Rightarrow> if t = 0 then None else Some (py_round2 (t * 1000)))"

definition check_server :: "probe_env \<Rightarrow> server \<Rightarrow> checker \<Rightarrow> (exn + outcome) \<times> checker" where
  "check_server env srv c =
     (let proto = lower (protocol srv) in
      case (if proto = ''tcp'' then Some (check_tcp_port env)
            else if proto = ''udp'' then Some (check_udp_port env)
            else None) of
        None \<Rightarrow>
          (Inr \<lparr>server = srv, is_alive = False, response_time = None, status_changed = False,
                checked_at = None, error = Some (unsupported_protocol @ proto)\<rparr>, c)
      | Some (Inl e) \<Rightarrow> (Inl e, c)
      | Some (Inr (alive, rt)) \<Rightarrow>
          (let key = server_key (host srv) (port srv) proto;
               previous_state = previous_states c key;
               changed = (previous_state \<noteq> None \<and> previous_state \<noteq> Some alive)
           in (Inr \<lparr>server = srv, is_alive = alive, response_time = ms_of rt,
                     status_changed = changed, checked_at = Some (clock env), error = None\<rparr>,
               c\<lparr>previous_states := (previous_states c)(key \<mapsto> alive)\<rparr>)))"

text \<open>
  The loop of \<open>check_all_servers\<close>: \<open>net i\<close> is what the operating system does during
  the probe of the \<open>i\<close>-th server of the list. The loop has no handler, so an exception
  that leaves \<open>check_server\<close> leaves the loop, with the memory as it is then.
\<close>

fun check_loop ::
  "(nat \<Rightarrow> probe_env) \<Rightarrow> nat \<Rightarrow> server list \<Rightarrow> outcome list \<Rightarrow> checker
     \<Rightarrow> (exn + outcome list) \<times> checker" where
  "check_loop net i [] results c = (Inr results, c)"
| "check_loop net i (srv # rest) results c =
     (case check_server (net i) srv c of
        (Inl e, c') \<Rightarrow> (Inl e, c')
      | (Inr result, c') \<Rightarrow> check_loop net (Suc i) rest (results @ [result]) c')"

definition check_all_servers ::
  "(nat \<Rightarrow> probe_env) \<Rightarrow> server list \<Rightarrow> checker \<Rightarrow> (exn + outcome list) \<times> checker" where
  "check_all_servers net servers c = check_loop net 0 servers [] c"

section \<open>The notifier: \<open>notifier/webhook_notifier.py\<close>\<close>

subsection \<open>Python values, HTTP exchanges and effects\<close>

datatype pyval =
  PNone | PBool bool | PInt int | PFloat real | PStr string | PDict "(string \<times> pyval) list"

fun dict_get :: "pyval \<Rightarrow> string \<Rightarrow> pyval option" where
  "dict_get (PDict kvs) k = map_of kvs k"
| "dict_get v k = None"

fun dict_keys :: "pyval \<Rightarrow> string list" where
  "dict_keys (PDict kvs) = map fst kvs"
| "dict_keys v = []"

fun starts_with :: "string \<Rightarrow> string \<Rightarrow> bool" where
  "starts_with [] s = True"
| "starts_with (p # ps) [] = False"
| "starts_with (p # ps) (c # cs) = (p = c \<and> starts_with ps cs)"

fun str_contains :: "string \<Rightarrow> string \<Rightarrow> bool" where
  \<comment> \<open>\<open>needle in s\<close>\<close>
  "str_contains needle [] = (needle = [])"
| "str_contains needle (c # cs) = (starts_with needle (c # cs) \<or> str_contains needle cs)"

datatype body_kind = Json_body | Form_data | Query_params

record http_request =
  req_verb :: string
  req_url :: string
  req_headers :: "string \<rightharpoonup> string"
  req_kind :: body_kind          \<comment> \<open>\<open>json=\<close>, \<open>data=\<close> or \<open>params=\<close>\<close>
  req_payload :: pyval
  req_timeout :: int

text \<open>What one call of the \<open>requests\<close> library ends in: a response with its status
  code and text, or one of the exceptions the source tells apart.\<close>

datatype http_result =
  Http_response nat string | Http_connection_error | Http_timeout | Http_other_error string

datatype effect = Http_call http_request | Sleep int

fun is_http_call :: "effect \<Rightarrow> bool" where
  "is_http_call (Http_call rq) = True"
| "is_http_call (Sleep n) = False"

definition http_calls :: "effect list \<Rightarrow> nat" where
  "http_calls w = length (filter is_http_call w)"

fun succeeds :: "http_result \<Rightarrow> bool" where
  \<comment> \<open>\<open>raise_for_status\<close> raises on the codes 400 to 599; the handlers return False\<close>
  "succeeds (Http_response code body) = (\<not> (400 \<le> code \<and> code < 600))"
| "succeeds Http_connection_error = False"
| "succeeds Http_timeout = False"
| "succeeds (Http_other_error m) = False"

subsection \<open>Configuration and construction\<close>

record webhook_config =
  cfg_url :: string
  cfg_method :: string
  cfg_headers :: "(string \<rightharpoonup> string) option"   \<comment> \<open>\<open>None\<close>: no key \<open>headers\<close>\<close>
  cfg_retry_count :: int
  cfg_retry_interval :: int
  cfg_msg_type :: "string option"                   \<comment> \<open>\<open>None\<close>: no key \<open>msg_type\<close>\<close>

definition validate_webhook_method :: "string \<Rightarrow> bool" where
  \<comment> \<open>the method check of \<open>ConfigLoader.validate_config\<close>: True when it does not raise\<close>
  "validate_webhook_method m = (upper m \<in> set [''GET'', ''POST'', ''PUT''])"

record notifier =
  url :: string
  "method" :: string
  headers :: "string \<rightharpoonup> string"
  retry_count :: int
  retry_interval :: int
  msg_type :: string

definition init_notifier :: "webhook_config \<Rightarrow> notifier" where
  \<comment> \<open>\<open>WebhookNotifier.__init__\<close>\<close>
  "init_notifier config =
     (let h = (case cfg_headers config of None \<Rightarrow> Map.empty | Some hs \<Rightarrow> hs)
      in \<lparr>url = cfg_url config,
          method = upper (cfg_method config),
          headers = (if h ''Content-Type'' = None then h(''Content-Type'' \<mapsto> ''application/json'')
                     else h),
          retry_count = max 0 (cfg_retry_count config),
          retry_interval = max 1 (cfg_retry_interval config),
          msg_type = (case cfg_msg_type config of None \<Rightarrow> ''text'' | Some t \<Rightarrow> t)\<rparr>)"

subsection \<open>Delivery\<close>

text \<open>
  The world of the notifier is the list of its effects so far, oldest first; \<open>web i\<close>
  is what the \<open>i\<close>-th HTTP call of the run ends in.
\<close>

definition http_exchange ::
  "(nat \<Rightarrow> http_result) \<Rightarrow> http_request \<Rightarrow> effect list \<Rightarrow> bool \<times> effect list" where
  "http_exchange web rq w = (succeeds (web (http_calls w)), w @ [Http_call rq])"

definition request_of :: "notifier \<Rightarrow> string \<Rightarrow> body_kind \<Rightarrow> pyval \<Rightarrow> http_request" where
  "request_of nf verb kind payload =
     \<lparr>req_verb = verb, req_url = url nf, req_headers = headers nf, req_kind = kind,
      req_payload = payload, req_timeout = 15\<rparr>"

definition send_request ::
  "(nat \<Rightarrow> http_result) \<Rightarrow> notifier \<Rightarrow> pyval \<Rightarrow> effect list \<Rightarrow> bool \<times> effect list" where
  \<comment> \<open>\<open>_send_request\<close>\<close>
  "send_request web nf payload w =
     (if method nf = ''POST'' then
        (if headers nf ''Content-Type'' = Some ''application/json''
         then http_exchange web (request_of nf ''POST'' Json_body payload) w
         else http_exchange web (request_of nf ''POST'' Form_data payload) w)
      else if method nf = ''GET'' then
        http_exchange web (request_of nf ''GET'' Query_params payload) w
      else (False, w))"

fun send_attempts ::
  "(nat \<Rightarrow> http_result) \<Rightarrow> notifier \<Rightarrow> pyval \<Rightarrow> int list \<Rightarrow> effect list
     \<Rightarrow> bool \<times> effect list" where
  \<comment> \<open>the \<open>for attempt in range(1, self.retry_count + 1)\<close> loop and the return after it\<close>
  "send_attempts web nf payload [] w = (False, w)"
| "send_attempts web nf payload (attempt # rest) w =
     (let (sent, w') = send_request web nf payload w
      in if sent then (True, w')
         else send_attempts web nf payload rest
                (if attempt < retry_count nf then w' @ [Sleep (retry_interval nf)] else w'))"

definition send_notification ::
  "(nat \<Rightarrow> http_result) \<Rightarrow> notifier \<Rightarrow> pyval \<Rightarrow> effect list \<Rightarrow> bool \<times> effect list" where
  "send_notification web nf payload w =
     (if retry_count nf = 0 then send_request web nf payload w
      else send_attempts web nf payload [1..retry_count nf] w)"

subsection \<open>Rendering\<close>

text \<open>The literals of the message texts, as UTF-8 bytes; each label starts with the
  newline that ends the line before it.\<close>

definition emoji_ok :: string where
  "emoji_ok =
     [CHR 0xE2, CHR 0x9C, CHR 0x85]"

definition emoji_fail :: string where
  "emoji_fail =
     [CHR 0xE2, CHR 0x9D, CHR 0x8C]"

definition txt_recovered :: string where
  "txt_recovered =
     [CHR 0xE6, CHR 0x81, CHR 0xA2, CHR 0xE5, CHR 0xA4, CHR 0x8D, CHR 0xE6, CHR 0xAD, CHR 0xA3,
      CHR 0xE5, CHR 0xB8, CHR 0xB8]"

definition txt_abnormal :: string where
  "txt_abnormal =
     [CHR 0xE5, CHR 0x87, CHR 0xBA, CHR 0xE7, CHR 0x8E, CHR 0xB0, CHR 0xE5, CHR 0xBC, CHR 0x82,
      CHR 0xE5, CHR 0xB8, CHR 0xB8]"

definition txt_server_port :: string where
  "txt_server_port =
     [CHR '' '', CHR 0xE6, CHR 0x9C, CHR 0x8D, CHR 0xE5, CHR 0x8A, CHR 0xA1, CHR 0xE5,
      CHR 0x99, CHR 0xA8, CHR 0xE7, CHR 0xAB, CHR 0xAF, CHR 0xE5, CHR 0x8F, CHR 0xA3]"

definition lbl_name :: string where
  "lbl_name =
     [CHR 0x0A, CHR 0xE6, CHR 0x9C, CHR 0x8D, CHR 0xE5, CHR 0x8A, CHR 0xA1, CHR 0xE5, CHR 0x99,
      CHR 0xA8, CHR 0xE5, CHR 0x90, CHR 0x8D, CHR 0xE7, CHR 0xA7, CHR 0xB0, CHR '':'',
      CHR '' '']"

definition lbl_host :: string where
  "lbl_host =
     [CHR 0x0A, CHR 0xE4, CHR 0xB8, CHR 0xBB, CHR 0xE6, CHR 0x9C, CHR 0xBA, CHR 0xE5, CHR 0x9C,
      CHR 0xB0, CHR 0xE5, CHR 0x9D, CHR 0x80, CHR '':'', CHR '' '']"

definition lbl_port :: string where
  "lbl_port =
     [CHR 0x0A, CHR 0xE7, CHR 0xAB, CHR 0xAF, CHR 0xE5, CHR 0x8F, CHR 0xA3, CHR '':'',
      CHR '' '']"

definition lbl_protocol :: string where
  "lbl_protocol =
     [CHR 0x0A, CHR 0xE5, CHR 0x8D, CHR 0x8F, CHR 0xE8, CHR 0xAE, CHR 0xAE, CHR '':'',
      CHR '' '']"

definition lbl_status :: string where
  "lbl_status =
     [CHR 0x0A, CHR 0xE7, CHR 0x8A, CHR 0xB6, CHR 0xE6, CHR 0x80, CHR 0x81, CHR '':'',
      CHR '' '']"

definition lbl_response_time :: string where
  "lbl_response_time =
     [CHR 0x0A, CHR 0xE5, CHR 0x93, CHR 0x8D, CHR 0xE5, CHR 0xBA, CHR 0x94, CHR 0xE6, CHR 0x97,
      CHR 0xB6, CHR 0xE9, CHR 0x97, CHR 0xB4, CHR '':'', CHR '' '']"

definition lbl_checked_at :: string where
  "lbl_checked_at =
     [CHR 0x0A, CHR 0xE6, CHR 0xA3, CHR 0x80, CHR 0xE6, CHR 0x9F, CHR 0xA5, CHR 0xE6, CHR 0x97,
      CHR 0xB6, CHR 0xE9, CHR 0x97, CHR 0xB4, CHR '':'', CHR '' '']"

text \<open>
  What rendering reads from the Python runtime: \<open>str\<close> of a float inside an f-string,
  and the two clock readings. In the results of \<open>check_server\<close> the key
  \<open>response_time\<close> is always present, so the default of
  \<open>check_result.get('response_time', ...)\<close> is never taken; the default of
  \<open>check_result.get('checked_at', ...)\<close> is taken when the key is absent.
\<close>

record py_runtime =
  str_float :: "real \<Rightarrow> string"
  strftime_now :: string            \<comment> \<open>\<open>time.strftime('%Y-%m-%d %H:%M:%S')\<close>\<close>
  time_now :: real                  \<comment> \<open>\<open>time.time()\<close>\<close>

definition up_down :: "bool \<Rightarrow> string" where
  "up_down alive = (if alive then ''UP'' else ''DOWN'')"

definition str_response_time :: "py_runtime \<Rightarrow> real option \<Rightarrow> string" where
  "str_response_time rt v = (case v of None \<Rightarrow> ''None'' | Some x \<Rightarrow> str_float rt x)"

definition str_checked_at :: "py_runtime \<Rightarrow> real option \<Rightarrow> string" where
  "str_checked_at rt v = (case v of None \<Rightarrow> strftime_now rt | Some t \<Rightarrow> str_float rt t)"

definition status_lines :: "py_runtime \<Rightarrow> outcome \<Rightarrow> string" where
  \<comment> \<open>the lines that the two provider texts share\<close>
  "status_lines rt check_result =
     (let srv = server check_result
      in (if is_alive check_result then emoji_ok else emoji_fail) @ txt_server_port
         @ (if is_alive check_result then txt_recovered else txt_abnormal)
         @ lbl_name @ name srv
         @ lbl_host @ host srv
         @ lbl_port @ str_int (port srv)
         @ lbl_protocol @ protocol srv
         @ lbl_status @ up_down (is_alive check_result)
         @ lbl_response_time @ str_response_time rt (response_time check_result) @ ''ms'')"

definition is_feishu :: "string \<Rightarrow> bool" where
  "is_feishu u = (str_contains ''feishu.cn'' u \<or> str_contains ''larksuite.com'' u)"

definition is_dingtalk :: "string \<Rightarrow> bool" where
  "is_dingtalk u = str_contains ''dingtalk.com'' u"

definition format_port_status_message :: "py_runtime \<Rightarrow> notifier \<Rightarrow> outcome \<Rightarrow> pyval" where
  "format_port_status_message rt nf check_result =
     (let srv = server check_result
      in if is_feishu (url nf) then
           PDict [(''msg_type'', PStr (msg_type nf)),
                  (''content'', PDict [(''text'',
                     PStr (status_lines rt check_result
                           @ lbl_checked_at @ str_checked_at rt (checked_at check_result)))])]
         else if is_dingtalk (url nf) then
           PDict [(''msgtype'', PStr ''text''),
                  (''text'', PDict [(''content'', PStr (status_lines rt check_result))])]
         else
           PDict [(''msg_type'', PStr (msg_type nf)),
                  (''title'', PStr ((if is_alive check_result then emoji_ok else emoji_fail)
                                   @ txt_server_port
                                   @ (if is_alive check_result then txt_recovered
                                      else txt_abnormal))),
                  (''server_name'', PStr (name srv)),
                  (''host'', PStr (host srv)),
                  (''port'', PInt (port srv)),
                  (''protocol'', PStr (protocol srv)),
                  (''status'', PStr (up_down (is_alive check_result))),
                  (''response_time_ms'',
                     (case response_time check_result of None \<Rightarrow> PNone | Some x \<Rightarrow> PFloat x)),
                  (''checked_at'',
                     (case checked_at check_result of None \<Rightarrow> PStr (strftime_now rt)
                      | Some t \<Rightarrow> PFloat t)),
                  (''timestamp'', PFloat (time_now rt))])"

definition notify_port_status_change ::
  "py_runtime \<Rightarrow> (nat \<Rightarrow> http_result) \<Rightarrow> notifier \<Rightarrow> outcome \<Rightarrow> effect list
     \<Rightarrow> bool \<times> effect list" where
  "notify_port_status_change rt web nf check_result w =
     (if \<not> status_changed check_result then (True, w)
      else send_notification web nf (format_port_status_message rt nf check_result) w)"

section \<open>Concrete inputs\<close>

text \<open>Endpoints, socket behaviours and memories on which the theorems below are run.\<close>

definition example_server :: server where
  "example_server = \<lparr>name = ''web'', host = ''10.0.0.1'', port = 80, protocol = ''TCP''\<rparr>"

definition backup_server :: server where
  "backup_server = \<lparr>name = ''db'', host = ''10.0.0.2'', port = 5432, protocol = ''tcp''\<rparr>"

definition icmp_server :: server where
  "icmp_server = \<lparr>name = ''gw'', host = ''10.0.0.3'', port = 7, protocol = ''ICMP''\<rparr>"

definition connected_env :: probe_env where
  "connected_env = \<lparr>sock_open = None, connect_ex = Inr 0, sendto = None, recvfrom = None,
                     elapsed = 1 / 8, clock = 1700000000\<rparr>"

definition refused_env :: probe_env where
  \<comment> \<open>\<open>connect_ex\<close> returns ECONNREFUSED after an eighth of a second\<close>
  "refused_env = connected_env\<lparr>connect_ex := Inr 111\<rparr>"

definition dns_failure_env :: probe_env where
  \<comment> \<open>\<open>connect_ex\<close> raises \<open>socket.gaierror\<close>\<close>
  "dns_failure_env =
     connected_env\<lparr>connect_ex := Inl (Socket_error ''Name or service not known'')\<rparr>"

definition faulty_env :: probe_env where
  \<comment> \<open>\<open>connect_ex\<close> raises an exception that is no \<open>socket.error\<close>\<close>
  "faulty_env = connected_env\<lparr>connect_ex := Inl (Other_exception ''UnicodeError'')\<rparr>"

definition silent_env :: probe_env where
  \<comment> \<open>the datagram leaves, nothing answers\<close>
  "silent_env = connected_env\<lparr>recvfrom := Some Socket_timeout\<rparr>"

definition unreachable_env :: probe_env where
  "unreachable_env = connected_env\<lparr>sendto := Some (Socket_error ''Network is unreachable'')\<rparr>"

definition port_unreachable_env :: probe_env where
  \<comment> \<open>the datagram leaves, an ICMP port-unreachable comes back: \<open>recvfrom\<close> raises\<close>
  "port_unreachable_env =
     connected_env\<lparr>recvfrom := Some (Socket_error ''Connection refused'')\<rparr>"

definition empty_checker :: checker where
  "empty_checker = \<lparr>timeout = 5, previous_states = Map.empty\<rparr>"

definition seen_up_checker :: checker where
  "seen_up_checker = \<lparr>timeout = 5, previous_states = [''10.0.0.1:80:tcp'' \<mapsto> True]\<rparr>"

definition faulty_first_net :: "nat \<Rightarrow> probe_env" where
  "faulty_first_net i = (if i = 0 then faulty_env else connected_env)"

definition faulty_second_net :: "nat \<Rightarrow> probe_env" where
  "faulty_second_net i = (if i = 1 then faulty_env else connected_env)"

definition dns_first_net :: "nat \<Rightarrow> probe_env" where
  "dns_first_net i = (if i = 0 then dns_failure_env else connected_env)"

text \<open>A probe behaviour in which every exception raised by a socket call is a
  \<open>socket.error\<close>.\<close>

definition raises_only_socket_errors :: "probe_env \<Rightarrow> bool" where
  "raises_only_socket_errors env =
     ((case sock_open env of None \<Rightarrow> True | Some e \<Rightarrow> is_socket_error e)
      \<and> (case connect_ex env of Inl e \<Rightarrow> is_socket_error e | Inr result \<Rightarrow> True)
      \<and> (case sendto env of None \<Rightarrow> True | Some e \<Rightarrow> is_socket_error e)
      \<and> (case recvfrom env of None \<Rightarrow> True | Some e \<Rightarrow> is_socket_error e))"

text \<open>The probe that \<open>check_server\<close> runs for the endpoint leaves with the exception
  \<open>e\<close>.\<close>

definition probe_raises :: "probe_env \<Rightarrow> server \<Rightarrow> exn \<Rightarrow> bool" where
  "probe_raises env srv e =
     (lower (protocol srv) = ''tcp'' \<and> check_tcp_port env = Inl e
      \<or> lower (protocol srv) = ''udp'' \<and> check_udp_port env = Inl e)"

text \<open>Webhook configurations, destinations and outcomes for the notifier.\<close>

definition example_config :: webhook_config where
  "example_config = \<lparr>cfg_url = ''http://hooks.example.com/port'', cfg_method = ''post'',
                      cfg_headers = None, cfg_retry_count = 2, cfg_retry_interval = 1,
                      cfg_msg_type = None\<rparr>"

definition three_tries_config :: webhook_config where
  "three_tries_config = example_config\<lparr>cfg_retry_count := 3\<rparr>"

definition put_config :: webhook_config where
  "put_config = example_config\<lparr>cfg_method := ''PUT''\<rparr>"

definition feishu_config :: webhook_config where
  "feishu_config = example_config\<lparr>cfg_url := ''https://open.feishu.cn/hook/1''\<rparr>"

definition dingtalk_config :: webhook_config where
  "dingtalk_config = example_config\<lparr>cfg_url := ''https://oapi.dingtalk.com/robot/send''\<rparr>"

definition flaky_web :: "nat \<Rightarrow> http_result" where
  \<comment> \<open>a destination that fails twice and answers the third call\<close>
  "flaky_web i = (if i < 2 then Http_response 500 ''busy'' else Http_response 200 ''ok'')"

definition ok_web :: "nat \<Rightarrow> http_result" where
  "ok_web i = Http_response 200 ''ok''"

definition whole_float_str :: "real \<Rightarrow> string" where
  \<comment> \<open>\<open>str\<close> of a float that is a whole number\<close>
  "whole_float_str x = str_int \<lfloor>x\<rfloor> @ ''.0''"

definition example_runtime :: py_runtime where
  "example_runtime = \<lparr>str_float = whole_float_str, strftime_now = ''2023-11-14 22:13:20'',
                       time_now = 1700000001\<rparr>"

definition down_outcome :: outcome where
  "down_outcome = \<lparr>server = example_server, is_alive = False, response_time = Some 125,
                    status_changed = True, checked_at = Some 1700000000, error = None\<rparr>"

definition steady_outcome :: outcome where
  "steady_outcome = down_outcome\<lparr>status_changed := False\<rparr>"

definition example_payload :: pyval where
  "example_payload = PDict [(''msg_type'', PStr ''text'')]"

definition example_request :: http_request where
  "example_request = \<lparr>req_verb = ''POST'', req_url = ''http://hooks.example.com/port'',
       req_headers = [''Content-Type'' \<mapsto> ''application/json''], req_kind = Json_body,
       req_payload = example_payload, req_timeout = 15\<rparr>"

text \<open>The request that one attempt of a notifier with method POST or GET issues.\<close>

definition attempt_request :: "notifier \<Rightarrow> pyval \<Rightarrow> http_request" where
  "attempt_request nf payload =
     request_of nf (method nf)
       (if method nf = ''POST''
        then (if headers nf ''Content-Type'' = Some ''application/json'' then Json_body
              else Form_data)
        else Query_params) payload"

section \<open>Properties of the probe engine\<close>

subsection \<open>Evaluation of the concrete inputs\<close>

lemma lower_TCP: "lower ''TCP'' = ''tcp''"
  by code_simp

lemma lower_ICMP: "lower ''ICMP'' = ''icmp''"
  by code_simp

lemma server_key_example: "server_key ''10.0.0.1'' 80 ''tcp'' = ''10.0.0.1:80:tcp''"
  by code_simp

lemma example_server_key:
  "server_key (host example_server) (port example_server) (lower (protocol example_server))
     = ''10.0.0.1:80:tcp''"
  by (simp add: example_server_def lower_TCP server_key_example)

lemma ms_of_eighth: "ms_of (Some (1 / 8)) = Some 125"
  by (simp add: ms_of_def py_round2_def)

subsection \<open>Transitions\<close>



text \<open>
  C10. A call of \<open>check_server\<close> leaves every entry of the memory alone except the one
  of the endpoint's own identity \<open>host:port:protocol\<close>. This holds for every protocol
  string, tcp and udp among them, and also when the probe raises.
\<close>

theorem check_server_frame:
  assumes "k \<noteq> server_key (host srv) (port srv) (lower (protocol srv))"
  shows "previous_states (snd (check_server env srv c)) k = previous_states c k"
  using assms by (auto simp: check_server_def Let_def split: option.splits sum.splits)

theorem check_server_frame_witness:
  "''10.0.0.2:5432:tcp''
     \<noteq> server_key (host example_server) (port example_server) (lower (protocol example_server))
   \<and> previous_states (snd (check_server refused_env example_server seen_up_checker))
        ''10.0.0.2:5432:tcp'' = None"
proof -
  have n: "''10.0.0.2:5432:tcp''
     \<noteq> server_key (host example_server) (port example_server) (lower (protocol example_server))"
    by (simp add: example_server_key)
  show ?thesis
    using check_server_frame [OF n, of refused_env seen_up_checker] n
    by (simp add: seen_up_checker_def)
qed

subsection \<open>The probes\<close>

text \<open>
  C3. A UDP probe whose datagram is sent without an error and whose read times out
  returns reachable. A UDP probe in which a socket call raises a hard socket error
  (opening the socket or sending raises a socket error, or the read raises a socket
  error other than the timeout, as after an ICMP port-unreachable) returns
  unreachable with no latency. And a UDP probe returns unreachable only then.
\<close>

theorem check_udp_port_silence_is_reachable:
  "(sock_open env = None \<and> sendto env = None \<and> recvfrom env = Some Socket_timeout
      \<longrightarrow> check_udp_port env = Inr (True, Some (elapsed env)))
   \<and> (is_socket_error e
       \<and> (sock_open env = Some e
          \<or> (sock_open env = None \<and> sendto env = Some e)
          \<or> (sock_open env = None \<and> sendto env = None \<and> recvfrom env = Some e
              \<and> e \<noteq> Socket_timeout))
      \<longrightarrow> check_udp_port env = Inr (False, None))
   \<and> (check_udp_port env = Inr (False, rt)
      \<longrightarrow> (\<exists>e'. is_socket_error e'
               \<and> (sock_open env = Some e'
                  \<or> (sock_open env = None \<and> sendto env = Some e')
                  \<or> (sock_open env = None \<and> sendto env = None \<and> recvfrom env = Some e'
                      \<and> e' \<noteq> Socket_timeout))))"
  by (auto simp: check_udp_port_def on_socket_error_def split: option.splits exn.splits if_splits)

text \<open>Silence, a failing send, and a refused port.\<close>

theorem check_udp_port_silence_is_reachable_witness:
  "sock_open silent_env = None \<and> sendto silent_env = None
   \<and> recvfrom silent_env = Some Socket_timeout
   \<and> check_udp_port silent_env = Inr (True, Some (1 / 8))
   \<and> is_socket_error (Socket_error ''Network is unreachable'')
   \<and> sock_open unreachable_env = None
   \<and> sendto unreachable_env = Some (Socket_error ''Network is unreachable'')
   \<and> check_udp_port unreachable_env = Inr (False, None)
   \<and> is_socket_error (Socket_error ''Connection refused'')
   \<and> sock_open port_unreachable_env = None \<and> sendto port_unreachable_env = None
   \<and> recvfrom port_unreachable_env = Some (Socket_error ''Connection refused'')
   \<and> Socket_error ''Connection refused'' \<noteq> Socket_timeout
   \<and> check_udp_port port_unreachable_env = Inr (False, None)"
  using check_udp_port_silence_is_reachable [where env = silent_env]
    check_udp_port_silence_is_reachable
      [where env = unreachable_env and e = "Socket_error ''Network is unreachable''"
         and rt = None]
    check_udp_port_silence_is_reachable
      [where env = port_unreachable_env and e = "Socket_error ''Connection refused''"
         and rt = None]
  by (simp add: silent_env_def unreachable_env_def port_unreachable_env_def connected_env_def)

text \<open>
  C5, as the code has it. A TCP probe whose \<open>connect_ex\<close> returns a code other than 0
  (refused, timed out, unreachable) returns unreachable together with the elapsed time;
  a TCP probe in which a socket call raises a socket error (an address that does not
  resolve) returns unreachable with no latency. The probe returns no message. The
  outcome that \<open>check_server\<close> builds from a failed TCP probe is not alive, has no
  \<open>error\<close> key, and its response time is \<open>None\<close> exactly when the probe's latency is
  \<open>None\<close> or zero.
\<close>

theorem check_tcp_port_failure:
  "(sock_open env = None \<and> connect_ex env = Inr result \<and> result \<noteq> 0
      \<longrightarrow> check_tcp_port env = Inr (False, Some (elapsed env)))
   \<and> (is_socket_error e
       \<and> (sock_open env = Some e \<or> (sock_open env = None \<and> connect_ex env = Inl e))
      \<longrightarrow> check_tcp_port env = Inr (False, None))
   \<and> (lower (protocol srv) = ''tcp'' \<and> check_tcp_port env = Inr (False, rt)
      \<longrightarrow> (\<exists>out c'. check_server env srv c = (Inr out, c')
               \<and> \<not> is_alive out \<and> error out = None \<and> response_time out = ms_of rt
               \<and> (response_time out = None) = (rt = None \<or> rt = Some 0)))"
  by (auto simp: check_tcp_port_def on_socket_error_def check_server_def Let_def ms_of_def
      split: option.splits)

theorem check_tcp_port_failure_witness:
  "sock_open refused_env = None \<and> connect_ex refused_env = Inr 111 \<and> (111 :: int) \<noteq> 0
   \<and> check_tcp_port refused_env = Inr (False, Some (1 / 8))
   \<and> is_socket_error (Socket_error ''Name or service not known'')
   \<and> sock_open dns_failure_env = None
   \<and> connect_ex dns_failure_env = Inl (Socket_error ''Name or service not known'')
   \<and> check_tcp_port dns_failure_env = Inr (False, None)
   \<and> lower (protocol example_server) = ''tcp''
   \<and> fst (check_server dns_failure_env example_server empty_checker)
       = Inr \<lparr>server = example_server, is_alive = False, response_time = None,
              status_changed = False, checked_at = Some 1700000000, error = None\<rparr>"
  using check_tcp_port_failure [of refused_env 111 "Socket_error ''Name or service not known''"
      example_server None empty_checker]
    check_tcp_port_failure [of dns_failure_env 0 "Socket_error ''Name or service not known''"
      example_server None empty_checker]
  by (simp add: check_server_def check_tcp_port_def on_socket_error_def refused_env_def
      dns_failure_env_def connected_env_def example_server_def lower_TCP empty_checker_def
      ms_of_def)

text \<open>
  A refused connection: the probe returns the latency of an eighth of a second, and
  the outcome carries 125 ms and no error.
\<close>

theorem check_tcp_port_refused_counterexample:
  "check_tcp_port refused_env = Inr (False, Some (1 / 8))
   \<and> fst (check_server refused_env example_server empty_checker)
       = Inr \<lparr>server = example_server, is_alive = False, response_time = Some 125,
              status_changed = False, checked_at = Some 1700000000, error = None\<rparr>"
  by (simp add: check_server_def check_tcp_port_def refused_env_def connected_env_def
      example_server_def lower_TCP empty_checker_def ms_of_eighth)

subsection \<open>Unsupported protocols\<close>

text \<open>
  C7, as the code has it. On an endpoint whose lower-cased protocol is neither tcp nor
  udp, \<open>check_server\<close> returns at once: the outcome is not alive, has no response time,
  has \<open>status_changed\<close> false and the error text followed by the protocol, and the
  memory is left as it was. The transition logic is not run.
\<close>

theorem check_server_unsupported:
  assumes "lower (protocol srv) \<noteq> ''tcp''" and "lower (protocol srv) \<noteq> ''udp''"
  shows "check_server env srv c
         = (Inr \<lparr>server = srv, is_alive = False, response_time = None, status_changed = False,
                 checked_at = None,
                 error = Some (unsupported_protocol @ lower (protocol srv))\<rparr>, c)"
  using assms by (simp add: check_server_def)

theorem check_server_unsupported_witness:
  "lower (protocol icmp_server) \<noteq> ''tcp'' \<and> lower (protocol icmp_server) \<noteq> ''udp''
   \<and> check_server connected_env icmp_server seen_up_checker
       = (Inr \<lparr>server = icmp_server, is_alive = False, response_time = None,
               status_changed = False, checked_at = None,
               error = Some (unsupported_protocol @ ''icmp'')\<rparr>, seen_up_checker)"
proof -
  have a: "lower (protocol icmp_server) \<noteq> ''tcp''" and b: "lower (protocol icmp_server) \<noteq> ''udp''"
    by (simp_all add: icmp_server_def lower_ICMP)
  show ?thesis
    using check_server_unsupported [OF a b, of connected_env seen_up_checker] a b
    by (simp add: icmp_server_def lower_ICMP)
qed

text \<open>
  After the check of an icmp endpoint on an empty memory, the memory has no entry
  \<open>False\<close> for its identity.
\<close>

theorem check_server_unsupported_counterexample:
  "previous_states (snd (check_server connected_env icmp_server empty_checker))
     (server_key (host icmp_server) (port icmp_server) (lower (protocol icmp_server)))
   \<noteq> Some False"
  by (simp add: check_server_def icmp_server_def empty_checker_def lower_ICMP)

subsection \<open>The cycle\<close>

lemma check_server_contained:
  assumes "raises_only_socket_errors env"
  shows "\<exists>out c'. check_server env srv c = (Inr out, c') \<and> server out = srv"
  using assms
  by (auto simp: raises_only_socket_errors_def check_server_def check_tcp_port_def
      check_udp_port_def on_socket_error_def Let_def split: option.splits sum.splits exn.splits)

lemma check_loop_contained:
  assumes "\<forall>j < length servers. raises_only_socket_errors (net (i + j))"
  shows "\<exists>more c'. check_loop net i servers results c = (Inr (results @ more), c')
           \<and> map server more = servers"
  using assms
proof (induction servers arbitrary: i results c)
  case Nil
  then show ?case by simp
next
  case (Cons srv rest)
  from Cons.prems have "raises_only_socket_errors (net i)"
    by force
  then obtain out c1 where step: "check_server (net i) srv c = (Inr out, c1)" "server out = srv"
    using check_server_contained by blast
  from Cons.prems have "\<forall>j < length rest. raises_only_socket_errors (net (Suc i + j))"
    by force
  from Cons.IH [OF this, of "results @ [out]" c1]
  obtain more c' where
    "check_loop net (Suc i) rest (results @ [out]) c1 = (Inr ((results @ [out]) @ more), c')"
    "map server more = rest"
    by blast
  with step show ?case
    by (intro exI [of _ "out # more"] exI [of _ c']) simp
qed

lemma probe_exception_is_no_socket_error:
  "(check_tcp_port env = Inl e \<longrightarrow> \<not> is_socket_error e)
   \<and> (check_udp_port env = Inl e \<longrightarrow> \<not> is_socket_error e)"
  by (auto simp: check_tcp_port_def check_udp_port_def on_socket_error_def
      split: option.splits sum.splits exn.splits if_splits)

lemma check_server_raises_iff:
  "check_server env srv c = (Inl e, c') \<longleftrightarrow> probe_raises env srv e \<and> c' = c"
  by (auto simp: check_server_def probe_raises_def Let_def split: sum.splits)

lemma check_loop_raises:
  assumes "j < length servers" and "probe_raises (net (i + j)) (servers ! j) e"
  shows "\<exists>e' c'. check_loop net i servers results c = (Inl e', c') \<and> \<not> is_socket_error e'"
  using assms
proof (induction servers arbitrary: i j results c)
  case Nil
  then show ?case by simp
next
  case (Cons srv rest)
  obtain r c1 where step: "check_server (net i) srv c = (r, c1)"
    by (cases "check_server (net i) srv c")
  show ?case
  proof (cases r)
    case (Inl e0)
    with step have "probe_raises (net i) srv e0"
      by (simp add: check_server_raises_iff)
    then have "\<not> is_socket_error e0"
      using probe_exception_is_no_socket_error by (auto simp: probe_raises_def)
    with step Inl show ?thesis by simp
  next
    case (Inr out)
    have "j \<noteq> 0"
    proof
      assume "j = 0"
      with Cons.prems have "probe_raises (net i) srv e" by simp
      then have "check_server (net i) srv c = (Inl e, c)"
        by (simp add: check_server_raises_iff)
      with step Inr show False by simp
    qed
    then obtain j' where j': "j = Suc j'"
      by (cases j) simp_all
    with Cons.prems have "j' < length rest" "probe_raises (net (Suc i + j')) (rest ! j') e"
      by simp_all
    from Cons.IH [OF this, of "results @ [out]" c1] step Inr show ?thesis
      by simp
  qed
qed

lemma faulty_probe_raises:
  "probe_raises faulty_env example_server (Other_exception ''UnicodeError'')"
  by (simp add: probe_raises_def example_server_def lower_TCP check_tcp_port_def
      on_socket_error_def faulty_env_def connected_env_def)

lemma lower_tcp: "lower ''tcp'' = ''tcp''"
  by code_simp

text \<open>
  C4, as the code has it. In a cycle in which the socket calls of the probes raise
  nothing but socket errors, \<open>check_all_servers\<close> returns one outcome for each of the
  N endpoints, in the order of the list: a socket error in the probe of one endpoint
  is turned into an outcome and the remaining endpoints are processed. An exception
  with which a probe leaves is never a socket error, and nothing catches it:
  \<open>check_server\<close> leaves with it, the memory untouched, and a cycle in which the
  probe of any endpoint leaves with an exception returns no list of outcomes at all
  but leaves with an exception that is no socket error.
\<close>

theorem check_all_servers_exceptions:
  "((\<forall>i < length servers. raises_only_socket_errors (net i))
      \<longrightarrow> (\<exists>results c'. check_all_servers net servers c = (Inr results, c')
             \<and> length results = length servers \<and> map server results = servers))
   \<and> (probe_raises env srv e
      \<longrightarrow> \<not> is_socket_error e \<and> check_server env srv c = (Inl e, c))
   \<and> (i < length servers \<and> probe_raises (net i) (servers ! i) e
      \<longrightarrow> (\<exists>e' c'. check_all_servers net servers c = (Inl e', c') \<and> \<not> is_socket_error e'))"
proof (intro conjI impI)
  assume "\<forall>i < length servers. raises_only_socket_errors (net i)"
  then have "\<forall>j < length servers. raises_only_socket_errors (net (0 + j))"
    by simp
  from check_loop_contained [OF this, of "[]" c]
  obtain more c' where "check_loop net 0 servers [] c = (Inr more, c')" "map server more = servers"
    by auto
  then show "\<exists>results c'. check_all_servers net servers c = (Inr results, c')
           \<and> length results = length servers \<and> map server results = servers"
    unfolding check_all_servers_def by (metis length_map)
next
  assume "probe_raises env srv e"
  then show "\<not> is_socket_error e"
    using probe_exception_is_no_socket_error by (auto simp: probe_raises_def)
next
  assume "probe_raises env srv e"
  then show "check_server env srv c = (Inl e, c)"
    by (simp add: check_server_raises_iff)
next
  assume "i < length servers \<and> probe_raises (net i) (servers ! i) e"
  then have "i < length servers" "probe_raises (net (0 + i)) (servers ! i) e"
    by simp_all
  from check_loop_raises
    [where net = net and i = 0 and j = i and servers = servers and e = e and results = "[]"
       and c = c, OF this]
  show "\<exists>e' c'. check_all_servers net servers c = (Inl e', c') \<and> \<not> is_socket_error e'"
    by (simp add: check_all_servers_def)
qed

text \<open>
  A name that does not resolve for the first endpoint: two outcomes. An exception
  that is no socket error in the probe of the second endpoint: the cycle leaves with
  it, after the memory has been written for the first endpoint.
\<close>

theorem check_all_servers_exceptions_witness:
  "raises_only_socket_errors (dns_first_net 0) \<and> raises_only_socket_errors (dns_first_net 1)
   \<and> map server (projr (fst (check_all_servers dns_first_net [example_server, backup_server]
        empty_checker))) = [example_server, backup_server]
   \<and> map is_alive (projr (fst (check_all_servers dns_first_net [example_server, backup_server]
        empty_checker))) = [False, True]
   \<and> probe_raises faulty_env example_server (Other_exception ''UnicodeError'')
   \<and> check_server faulty_env example_server seen_up_checker
       = (Inl (Other_exception ''UnicodeError''), seen_up_checker)
   \<and> (1 :: nat) < length [example_server, backup_server]
   \<and> probe_raises (faulty_second_net 1) ([example_server, backup_server] ! 1)
        (Other_exception ''UnicodeError'')
   \<and> check_all_servers faulty_second_net [example_server, backup_server] empty_checker
       = (Inl (Other_exception ''UnicodeError''), seen_up_checker)"
proof -
  have a: "\<forall>i < length [example_server, backup_server]. raises_only_socket_errors (dns_first_net i)"
    by (simp add: raises_only_socket_errors_def dns_first_net_def dns_failure_env_def
        connected_env_def)
  have b: "lower (protocol backup_server) = ''tcp''"
    by (simp add: backup_server_def lower_tcp)
  have p: "probe_raises (faulty_second_net 1) ([example_server, backup_server] ! 1)
        (Other_exception ''UnicodeError'')"
    by (simp add: probe_raises_def b faulty_second_net_def check_tcp_port_def
        on_socket_error_def faulty_env_def connected_env_def)
  note t1 = check_all_servers_exceptions
    [where net = dns_first_net and servers = "[example_server, backup_server]"
       and c = empty_checker and env = faulty_env and srv = example_server
       and e = "Other_exception ''UnicodeError''" and i = 1]
  note t2 = check_all_servers_exceptions
    [where net = faulty_second_net and servers = "[example_server, backup_server]"
       and c = seen_up_checker and env = faulty_env and srv = example_server
       and e = "Other_exception ''UnicodeError''" and i = 1]
  have k: "server_key (host example_server) (port example_server) ''tcp'' = ''10.0.0.1:80:tcp''"
    using example_server_key by (simp add: example_server_def lower_TCP)
  have run: "check_all_servers faulty_second_net [example_server, backup_server] empty_checker
       = (Inl (Other_exception ''UnicodeError''), seen_up_checker)"
    by (simp add: check_all_servers_def check_server_def check_tcp_port_def on_socket_error_def
        faulty_second_net_def faulty_env_def connected_env_def b k Let_def
        empty_checker_def seen_up_checker_def)
      (simp add: example_server_def lower_TCP k [unfolded example_server_def, simplified])
  show ?thesis
    using t1 t2 a p faulty_probe_raises run
    by (simp add: check_all_servers_def check_server_def check_tcp_port_def on_socket_error_def
        raises_only_socket_errors_def dns_first_net_def dns_failure_env_def connected_env_def
        example_server_def lower_TCP b Let_def)
qed

text \<open>
  The probe of the first of two endpoints raises an exception that is no socket error:
  the cycle ends with that exception and returns no outcome for the second endpoint.
\<close>

theorem check_all_servers_fault_counterexample:
  "check_all_servers faulty_first_net [example_server, backup_server] empty_checker
   = (Inl (Other_exception ''UnicodeError''), empty_checker)"
  by (simp add: check_all_servers_def check_server_def check_tcp_port_def on_socket_error_def
      faulty_first_net_def faulty_env_def connected_env_def example_server_def lower_TCP)

section \<open>Properties of the notifier\<close>

subsection \<open>Evaluation of the concrete inputs\<close>

lemma upper_post: "upper ''post'' = ''POST''"
  by code_simp

lemma upper_PUT: "upper ''PUT'' = ''PUT''"
  by code_simp

lemma init_example_config:
  "init_notifier example_config
   = \<lparr>url = ''http://hooks.example.com/port'', method = ''POST'',
      headers = [''Content-Type'' \<mapsto> ''application/json''], retry_count = 2,
      retry_interval = 1, msg_type = ''text''\<rparr>"
  by (simp add: init_notifier_def example_config_def upper_post)

lemma init_three_tries_config:
  "init_notifier three_tries_config
   = \<lparr>url = ''http://hooks.example.com/port'', method = ''POST'',
      headers = [''Content-Type'' \<mapsto> ''application/json''], retry_count = 3,
      retry_interval = 1, msg_type = ''text''\<rparr>"
  by (simp add: init_notifier_def three_tries_config_def example_config_def upper_post)

lemma init_put_config:
  "init_notifier put_config
   = \<lparr>url = ''http://hooks.example.com/port'', method = ''PUT'',
      headers = [''Content-Type'' \<mapsto> ''application/json''], retry_count = 2,
      retry_interval = 1, msg_type = ''text''\<rparr>"
  by (simp add: init_notifier_def put_config_def example_config_def upper_PUT)

lemma upto_1_2: "[1..2::int] = [1, 2]"
  by code_simp

lemma upto_1_3: "[1..3::int] = [1, 2, 3]"
  by code_simp

lemma example_url_generic:
  "\<not> is_feishu ''http://hooks.example.com/port'' \<and> \<not> is_dingtalk ''http://hooks.example.com/port''"
  by (simp add: is_feishu_def is_dingtalk_def)

lemma feishu_url_matches: "is_feishu ''https://open.feishu.cn/hook/1''"
  by (simp add: is_feishu_def)

lemma dingtalk_url_matches:
  "\<not> is_feishu ''https://oapi.dingtalk.com/robot/send''
   \<and> is_dingtalk ''https://oapi.dingtalk.com/robot/send''"
  by (simp add: is_feishu_def is_dingtalk_def)

lemma init_notifier_clamps:
  "0 \<le> retry_count (init_notifier config) \<and> 1 \<le> retry_interval (init_notifier config)"
  by (simp add: init_notifier_def Let_def)

subsection \<open>One attempt\<close>

lemma http_calls_append_call: "http_calls (w @ [Http_call rq]) = Suc (http_calls w)"
  by (simp add: http_calls_def)

lemma http_calls_append_sleep: "http_calls (w @ [Sleep n]) = http_calls w"
  by (simp add: http_calls_def)

text \<open>With the method POST or GET an attempt is one HTTP call, and it succeeds when
  that call ends in a response whose status is no error status.\<close>

lemma send_request_attempt:
  assumes "method nf = ''POST'' \<or> method nf = ''GET''"
  shows "send_request web nf payload w
         = (succeeds (web (http_calls w)), w @ [Http_call (attempt_request nf payload)])"
  using assms by (auto simp: send_request_def http_exchange_def attempt_request_def)

text \<open>
  C6. The configuration validator accepts the method PUT, and its message names PUT
  among the supported methods; \<open>_send_request\<close> has a branch for POST and one for
  GET only. With the validated method PUT an attempt issues no HTTP request and
  returns False, also towards a destination that would answer 200: the two tries of
  \<open>send_notification\<close> leave nothing but the sleep between them.
\<close>

theorem send_request_put_not_sent:
  "validate_webhook_method (cfg_method put_config)
   \<and> method (init_notifier put_config) = ''PUT''
   \<and> send_request ok_web (init_notifier put_config) example_payload [] = (False, [])
   \<and> send_notification ok_web (init_notifier put_config) example_payload [] = (False, [Sleep 1])"
proof -
  have "cfg_method put_config = ''PUT''"
    by (simp add: put_config_def)
  then have "validate_webhook_method (cfg_method put_config)"
    by (simp add: validate_webhook_method_def upper_PUT)
  then show ?thesis
    by (simp add: init_put_config send_request_def send_notification_def upto_1_2)
qed

subsection \<open>The retry loop\<close>

lemma send_attempts_trace:
  assumes m: "method nf = ''POST'' \<or> method nf = ''GET''"
    and n: "n = nat (retry_count nf - a)" and a: "a \<le> retry_count nf"
  shows "\<exists>k. 1 \<le> k \<and> int k \<le> retry_count nf - a + 1
           \<and> snd (send_attempts web nf payload [a..retry_count nf] w)
               = w @ concat (replicate (k - 1)
                     [Http_call (attempt_request nf payload), Sleep (retry_interval nf)])
                   @ [Http_call (attempt_request nf payload)]
           \<and> (\<forall>j < k - 1. \<not> succeeds (web (http_calls w + j)))
           \<and> fst (send_attempts web nf payload [a..retry_count nf] w)
               = succeeds (web (http_calls w + (k - 1)))
           \<and> (fst (send_attempts web nf payload [a..retry_count nf] w)
               \<or> int k = retry_count nf - a + 1)"
  using n a
proof (induction n arbitrary: a w)
  case 0
  then have eq: "a = retry_count nf" by simp
  have l: "[a..retry_count nf] = [a]" by (simp add: eq)
  show ?case
    by (rule exI [of _ 1]) (simp add: l send_request_attempt [OF m] eq)
next
  case (Suc n)
  then have lt: "a < retry_count nf" by simp
  then have l: "[a..retry_count nf] = a # [a + 1..retry_count nf]"
    by (simp add: upto_rec1)
  let ?rq = "attempt_request nf payload"
  let ?w' = "w @ [Http_call ?rq, Sleep (retry_interval nf)]"
  show ?case
  proof (cases "succeeds (web (http_calls w))")
    case True
    then show ?thesis
      using lt by (intro exI [of _ 1]) (simp add: l send_request_attempt [OF m])
  next
    case False
    have step: "send_attempts web nf payload [a..retry_count nf] w
                = send_attempts web nf payload [a + 1..retry_count nf] ?w'"
      using False lt by (simp add: l send_request_attempt [OF m])
    have hc: "http_calls ?w' = Suc (http_calls w)"
      by (simp add: http_calls_def)
    from Suc.prems have "n = nat (retry_count nf - (a + 1))" "a + 1 \<le> retry_count nf"
      by simp_all
    from Suc.IH [OF this, of ?w']
    obtain k where k: "1 \<le> k" "int k \<le> retry_count nf - (a + 1) + 1"
      "snd (send_attempts web nf payload [a + 1..retry_count nf] ?w')
         = ?w' @ concat (replicate (k - 1) [Http_call ?rq, Sleep (retry_interval nf)])
             @ [Http_call ?rq]"
      "\<forall>j < k - 1. \<not> succeeds (web (http_calls ?w' + j))"
      "fst (send_attempts web nf payload [a + 1..retry_count nf] ?w')
         = succeeds (web (http_calls ?w' + (k - 1)))"
      "fst (send_attempts web nf payload [a + 1..retry_count nf] ?w')
         \<or> int k = retry_count nf - (a + 1) + 1"
      by blast
    from k(1) obtain k' where k': "k = Suc k'"
      by (cases k) simp_all
    have none: "\<forall>j < Suc k - 1. \<not> succeeds (web (http_calls w + j))"
    proof (intro allI impI)
      fix j assume j: "j < Suc k - 1"
      show "\<not> succeeds (web (http_calls w + j))"
      proof (cases j)
        case 0
        with False show ?thesis by simp
      next
        case (Suc i)
        with j have "i < k - 1" by simp
        with k(4) have "\<not> succeeds (web (http_calls ?w' + i))" by blast
        then show ?thesis by (simp add: hc Suc)
      qed
    qed
    show ?thesis
      apply (rule exI [of _ "Suc k"])
      using k none by (auto simp: step hc k')
  qed
qed

text \<open>
  C2, as the code has it. With the method POST or GET and a retry count of at least 0,
  \<open>send_notification\<close> makes \<open>k\<close> attempts, where \<open>k\<close> is at least 1 and at most
  \<open>max 1 retry_count\<close> (one attempt for the counts 0 and 1, \<open>retry_count\<close> attempts
  above): its effects are \<open>k\<close> HTTP calls with one sleep of \<open>retry_interval\<close> seconds
  between consecutive calls; every attempt before the last failed; the result is the
  success of the last attempt; and a false result means that all
  \<open>max 1 retry_count\<close> attempts were made.
\<close>

theorem send_notification_attempts:
  assumes "method nf = ''POST'' \<or> method nf = ''GET''" and "0 \<le> retry_count nf"
  shows "\<exists>k. 1 \<le> k \<and> int k \<le> max 1 (retry_count nf)
           \<and> snd (send_notification web nf payload w)
               = w @ concat (replicate (k - 1)
                     [Http_call (attempt_request nf payload), Sleep (retry_interval nf)])
                   @ [Http_call (attempt_request nf payload)]
           \<and> (\<forall>j < k - 1. \<not> succeeds (web (http_calls w + j)))
           \<and> fst (send_notification web nf payload w)
               = succeeds (web (http_calls w + (k - 1)))
           \<and> (fst (send_notification web nf payload w) \<or> int k = max 1 (retry_count nf))"
proof (cases "retry_count nf = 0")
  case True
  then show ?thesis
    by (intro exI [of _ 1]) (simp add: send_notification_def send_request_attempt [OF assms(1)])
next
  case False
  with assms(2) have pos: "1 \<le> retry_count nf" by simp
  then have mx: "max 1 (retry_count nf) = retry_count nf - 1 + 1" by simp
  show ?thesis
    using send_attempts_trace [OF assms(1) refl pos, of web payload w] False
    unfolding send_notification_def mx by simp
qed

text \<open>
  With a retry count of 3 and a destination that fails twice, the third attempt is
  made and delivers.
\<close>

theorem send_notification_attempts_witness:
  "(method (init_notifier three_tries_config) = ''POST''
      \<or> method (init_notifier three_tries_config) = ''GET'')
   \<and> 0 \<le> retry_count (init_notifier three_tries_config)
   \<and> send_notification flaky_web (init_notifier three_tries_config) example_payload []
       = (True, [Http_call example_request, Sleep 1, Http_call example_request, Sleep 1,
                 Http_call example_request])"
proof -
  have a: "method (init_notifier three_tries_config) = ''POST''
      \<or> method (init_notifier three_tries_config) = ''GET''"
    and b: "0 \<le> retry_count (init_notifier three_tries_config)"
    by (simp_all add: init_three_tries_config)
  show ?thesis
    using send_notification_attempts [OF a b, of flaky_web example_payload "[]"] a b
    by (simp add: init_three_tries_config send_notification_def send_request_def
        http_exchange_def request_of_def example_request_def http_calls_def flaky_web_def
        upto_1_3)
qed

text \<open>
  With a retry count of 2 and the same destination, two attempts are made and the
  result is False: the third attempt, which would succeed, is never made.
\<close>

theorem send_notification_third_attempt_counterexample:
  "send_notification flaky_web (init_notifier example_config) example_payload []
   = (False, [Http_call example_request, Sleep 1, Http_call example_request])"
  by (simp add: init_example_config send_notification_def send_request_def http_exchange_def
      request_of_def example_request_def http_calls_def flaky_web_def upto_1_2)

subsection \<open>The filter\<close>

text \<open>
  C8. On an outcome whose \<open>status_changed\<close> is false,
  \<open>notify_port_status_change\<close> returns True and has no effect: no HTTP call, no
  sleep.
\<close>

theorem notify_unchanged_is_noop:
  assumes "\<not> status_changed check_result"
  shows "notify_port_status_change rt web nf check_result w = (True, w)"
  using assms by (simp add: notify_port_status_change_def)

theorem notify_unchanged_is_noop_witness:
  "\<not> status_changed steady_outcome
   \<and> notify_port_status_change example_runtime flaky_web (init_notifier example_config)
        steady_outcome [] = (True, [])"
proof -
  have a: "\<not> status_changed steady_outcome"
    by (simp add: steady_outcome_def down_outcome_def)
  show ?thesis
    using notify_unchanged_is_noop [OF a] a by simp
qed

subsection \<open>Payload shapes\<close>

text \<open>The substring test of the model is Python's \<open>in\<close>.\<close>

lemma starts_with_iff: "starts_with p s \<longleftrightarrow> (\<exists>q. s = p @ q)"
  by (induction p s rule: starts_with.induct) auto

lemma str_contains_iff: "str_contains needle s \<longleftrightarrow> (\<exists>p q. s = p @ needle @ q)"
proof (induction s)
  case Nil
  then show ?case by auto
next
  case (Cons c cs)
  show ?case
  proof
    assume "str_contains needle (c # cs)"
    then consider "starts_with needle (c # cs)" | "str_contains needle cs"
      by auto
    then show "\<exists>p q. c # cs = p @ needle @ q"
    proof cases
      case 1
      then obtain q where "c # cs = needle @ q"
        using starts_with_iff by blast
      then have "c # cs = [] @ needle @ q" by simp
      then show ?thesis by blast
    next
      case 2
      with Cons.IH obtain p q where "cs = p @ needle @ q" by blast
      then have "c # cs = (c # p) @ needle @ q" by simp
      then show ?thesis by blast
    qed
  next
    assume "\<exists>p q. c # cs = p @ needle @ q"
    then obtain p q where pq: "c # cs = p @ needle @ q" by blast
    show "str_contains needle (c # cs)"
    proof (cases p)
      case Nil
      with pq have "starts_with needle (c # cs)"
        using starts_with_iff by force
      then show ?thesis by simp
    next
      case (Cons x xs)
      with pq have "cs = xs @ needle @ q" by simp
      with Cons.IH show ?thesis by auto
    qed
  qed
qed

text \<open>
  C9, as the code has it. Rendering is a total function that chooses one of three
  shapes from the URL alone. A URL containing \<open>feishu.cn\<close> or \<open>larksuite.com\<close> gives
  the nested shape of \<open>msg_type\<close> and \<open>content\<close> with its \<open>text\<close>; otherwise a URL
  containing \<open>dingtalk.com\<close> gives \<open>msgtype\<close> and \<open>text\<close> with its \<open>content\<close>; every
  other URL gives the flat shape with the keys \<open>msg_type\<close>, \<open>title\<close>,
  \<open>server_name\<close>, \<open>host\<close>, \<open>port\<close>, \<open>protocol\<close>, \<open>status\<close> (UP or DOWN),
  \<open>response_time_ms\<close>, \<open>checked_at\<close> and \<open>timestamp\<close>, where \<open>checked_at\<close> is the
  number of epoch seconds recorded by the check (a float, not a string), or the
  formatted local time when the outcome has no \<open>checked_at\<close>.
\<close>

theorem format_port_status_message_shape:
  "(is_feishu (url nf)
      \<longrightarrow> (\<exists>t. format_port_status_message rt nf r
                 = PDict [(''msg_type'', PStr (msg_type nf)),
                          (''content'', PDict [(''text'', PStr t)])]))
   \<and> (\<not> is_feishu (url nf) \<and> is_dingtalk (url nf)
      \<longrightarrow> (\<exists>t. format_port_status_message rt nf r
                 = PDict [(''msgtype'', PStr ''text''),
                          (''text'', PDict [(''content'', PStr t)])]))
   \<and> (\<not> is_feishu (url nf) \<and> \<not> is_dingtalk (url nf)
      \<longrightarrow> (\<exists>title. format_port_status_message rt nf r
                 = PDict [(''msg_type'', PStr (msg_type nf)),
                          (''title'', PStr title),
                          (''server_name'', PStr (name (server r))),
                          (''host'', PStr (host (server r))),
                          (''port'', PInt (port (server r))),
                          (''protocol'', PStr (protocol (server r))),
                          (''status'', PStr (if is_alive r then ''UP'' else ''DOWN'')),
                          (''response_time_ms'',
                             (case response_time r of None \<Rightarrow> PNone | Some x \<Rightarrow> PFloat x)),
                          (''checked_at'',
                             (case checked_at r of None \<Rightarrow> PStr (strftime_now rt)
                              | Some t \<Rightarrow> PFloat t)),
                          (''timestamp'', PFloat (time_now rt))]))"
  by (simp add: format_port_status_message_def up_down_def Let_def)

theorem format_port_status_message_shape_witness:
  "is_feishu (url (init_notifier feishu_config))
   \<and> dict_keys (format_port_status_message example_runtime (init_notifier feishu_config)
        down_outcome) = [''msg_type'', ''content'']
   \<and> \<not> is_feishu (url (init_notifier dingtalk_config))
   \<and> is_dingtalk (url (init_notifier dingtalk_config))
   \<and> dict_keys (format_port_status_message example_runtime (init_notifier dingtalk_config)
        down_outcome) = [''msgtype'', ''text'']
   \<and> \<not> is_feishu (url (init_notifier example_config))
   \<and> \<not> is_dingtalk (url (init_notifier example_config))
   \<and> dict_keys (format_port_status_message example_runtime (init_notifier example_config)
        down_outcome)
       = [''msg_type'', ''title'', ''server_name'', ''host'', ''port'', ''protocol'', ''status'',
          ''response_time_ms'', ''checked_at'', ''timestamp'']
   \<and> dict_get (format_port_status_message example_runtime (init_notifier example_config)
        down_outcome) ''status'' = Some (PStr ''DOWN'')"
proof -
  have u: "url (init_notifier feishu_config) = ''https://open.feishu.cn/hook/1''"
    by (simp add: init_notifier_def feishu_config_def example_config_def)
  have v: "url (init_notifier example_config) = ''http://hooks.example.com/port''"
    by (simp add: init_example_config)
  have d: "url (init_notifier dingtalk_config) = ''https://oapi.dingtalk.com/robot/send''"
    by (simp add: init_notifier_def dingtalk_config_def example_config_def)
  show ?thesis
    using format_port_status_message_shape
        [of "init_notifier feishu_config" example_runtime down_outcome]
      format_port_status_message_shape
        [of "init_notifier dingtalk_config" example_runtime down_outcome]
      format_port_status_message_shape
        [of "init_notifier example_config" example_runtime down_outcome]
    by (auto simp: u v d feishu_url_matches dingtalk_url_matches example_url_generic
        down_outcome_def)
qed

text \<open>
  In the flat payload of an outcome of \<open>check_server\<close>, \<open>checked_at\<close> is a float.
\<close>

theorem format_port_status_message_checked_at_counterexample:
  "dict_get (format_port_status_message example_runtime (init_notifier example_config)
       down_outcome) ''checked_at'' = Some (PFloat 1700000000)"
  by (simp add: format_port_status_message_def init_example_config example_url_generic
      down_outcome_def)

end
